theory Spec2Isabelle
  imports Main "HOL-Library.Word" "HOL-Library.Sublist"
begin

section \<open>Go values: errors, panics, bytes\<close>

text \<open>
  The adapter of \<^verbatim>\<open>cloud/storage/s3/s3.go\<close> sits between the Upspin storage interface and the
  AWS SDK. A Go call either returns or panics (a nil pointer dereference, a failed unchecked
  type assertion); a returning call hands back its values, one of which may be an \<^verbatim>\<open>error\<close>.
\<close>

type_synonym byte = "8 word"

datatype 'a outcome = Panics | Returns 'a

text \<open>
  An error handed back by the SDK. Some implement \<^verbatim>\<open>awserr.RequestFailure\<close> and so carry the
  HTTP status code of the response; the others (a request that could not be sent, missing
  credentials, a plain Go error) do not. Both have a text, what \<^verbatim>\<open>err.Error()\<close> gives.
\<close>

datatype sdk_error = RequestFailure int string | PlainError string

fun ErrorText :: "sdk_error \<Rightarrow> string" where
  "ErrorText (RequestFailure code msg) = msg"
| "ErrorText (PlainError msg) = msg"

text \<open>
  The comma-ok form \<^verbatim>\<open>awsErr, ok := err.(awserr.RequestFailure); ok && awsErr.StatusCode() == 404\<close>
  of \<^verbatim>\<open>Download\<close>.
\<close>

fun is404 :: "sdk_error \<Rightarrow> bool" where
  "is404 (RequestFailure code msg) = (code = 404)"
| "is404 (PlainError msg) = False"

text \<open>
  Upspin errors, as built by \<^verbatim>\<open>errors.E(op, kind, err)\<close>: the operation, the kind and the
  wrapped error. Only the three kinds this repository names are listed. The wrapped error is
  either the SDK's error itself or an \<^verbatim>\<open>errors.Errorf(format, args...)\<close>, kept as its format
  string and its arguments in order (each already a string: a \<^verbatim>\<open>%q\<close> or \<^verbatim>\<open>%s\<close> argument, or the
  text of an error passed to \<^verbatim>\<open>%s\<close>).
\<close>

datatype Kind = Invalid | NotExist | IO

datatype cause = Wrapped sdk_error | Errorf string "string list"

record upspin_error =
  Op :: string
  Kind :: Kind
  Err :: cause

definition E :: "string \<Rightarrow> Kind \<Rightarrow> cause \<Rightarrow> upspin_error" where
  "E op kind err = \<lparr>Op = op, Kind = kind, Err = err\<rparr>"

section \<open>The SDK and the remote service\<close>

text \<open>
  \<^verbatim>\<open>aws.Config\<close>, with the three fields \<^verbatim>\<open>New\<close> sets, and the client \<^verbatim>\<open>*s3.S3\<close>, with the endpoint
  the SDK resolved for it. A nil pointer is \<open>None\<close>.
\<close>

record aws_Config =
  Region :: string
  Endpoint_cfg :: "string option"
  S3ForcePathStyle :: "bool option"

record S3 =
  Endpoint :: string
  Config :: aws_Config

text \<open>Everything the programs do to the outside: sessions created and client calls issued.\<close>

datatype event =
    NewSessionWithOptions aws_Config
  | Upload_call string string string "byte list"
  | GetObject_call string string
  | DeleteObject_call string string
  | DeleteBucket_call string string
  | RemoveRoleFromInstanceProfile_call string string
  | DeleteInstanceProfile_call string
  | DeleteRolePolicy_call string string
  | DeleteRole_call string

text \<open>
  The world outside the process:
  \<^item> \<open>containers\<close>: for each bucket name, the map from refs to blobs the service holds;
  \<^item> \<open>faults\<close>: what happens to the upcoming client calls, in order: \<open>None\<close> when the service
    serves the request, \<open>Some e\<close> when the call fails with \<open>e\<close>; calls past the end are served;
  \<^item> \<open>trace\<close>: the sessions created and client calls issued so far, oldest first;
  \<^item> \<open>session_error\<close>: the error of \<^verbatim>\<open>session.NewSessionWithOptions\<close>, if the ambient
    credentials make it fail;
  \<^item> \<open>endpoints\<close>: the endpoint the SDK resolves for a configuration;
  \<^item> \<open>logged\<close>: the lines written with \<^verbatim>\<open>log.Println\<close> and \<^verbatim>\<open>log.Printf\<close>, as format and arguments.
\<close>

record world =
  containers :: "string \<Rightarrow> string \<rightharpoonup> byte list"
  faults :: "sdk_error option list"
  trace :: "event list"
  session_error :: "sdk_error option"
  endpoints :: "aws_Config \<Rightarrow> string"
  logged :: "(string \<times> string list) list"

definition next_fault :: "world \<Rightarrow> sdk_error option" where
  "next_fault w = (case faults w of [] \<Rightarrow> None | f # fs \<Rightarrow> f)"

text \<open>One client call: it is recorded, and it uses up the next entry of \<open>faults\<close>.\<close>

definition client_call :: "event \<Rightarrow> world \<Rightarrow> sdk_error option \<times> world" where
  "client_call ev w = (next_fault w, w\<lparr>faults := tl (faults w), trace := trace w @ [ev]\<rparr>)"

text \<open>
  Modelled from the spec: the object-storage service and the SDK calls that reach it
  (\<^verbatim>\<open>s3manager\<close>'s \<^verbatim>\<open>Upload\<close> and \<^verbatim>\<open>Download\<close>, \<^verbatim>\<open>s3.DeleteObject\<close>) are not part of this
  repository. The container is a map from refs to blobs with last-write-wins; a served
  download of an absent ref fails with HTTP status 404; a served delete succeeds whether or
  not the ref is present; a failed call leaves the container as it was. A call on a nil
  client dereferences it and panics.
\<close>

definition sdk_Upload ::
  "S3 option \<Rightarrow> string \<Rightarrow> string \<Rightarrow> string \<Rightarrow> byte list \<Rightarrow> world \<Rightarrow> (sdk_error option \<times> world) outcome" where
  "sdk_Upload svc acl bucket key body w =
     (case svc of
        None \<Rightarrow> Panics
      | Some c \<Rightarrow>
          (case client_call (Upload_call acl bucket key body) w of
             (Some e, w') \<Rightarrow> Returns (Some e, w')
           | (None, w') \<Rightarrow>
               Returns (None, w'\<lparr>containers := (containers w')(bucket := (containers w' bucket)(key \<mapsto> body))\<rparr>)))"

definition sdk_Download ::
  "S3 option \<Rightarrow> string \<Rightarrow> string \<Rightarrow> world \<Rightarrow> ((sdk_error + byte list) \<times> world) outcome" where
  "sdk_Download svc bucket key w =
     (case svc of
        None \<Rightarrow> Panics
      | Some c \<Rightarrow>
          (case client_call (GetObject_call bucket key) w of
             (Some e, w') \<Rightarrow> Returns (Inl e, w')
           | (None, w') \<Rightarrow>
               (case containers w' bucket key of
                  None \<Rightarrow> Returns (Inl (RequestFailure 404 ''NoSuchKey: The specified key does not exist.''), w')
                | Some body \<Rightarrow> Returns (Inr body, w'))))"

definition sdk_DeleteObject ::
  "S3 option \<Rightarrow> string \<Rightarrow> string \<Rightarrow> world \<Rightarrow> (sdk_error option \<times> world) outcome" where
  "sdk_DeleteObject svc bucket key w =
     (case svc of
        None \<Rightarrow> Panics
      | Some c \<Rightarrow>
          (case client_call (DeleteObject_call bucket key) w of
             (Some e, w') \<Rightarrow> Returns (Some e, w')
           | (None, w') \<Rightarrow>
               Returns (None, w'\<lparr>containers := (containers w')(bucket := (containers w' bucket)(key := None))\<rparr>)))"

section \<open>The adapter: \<^verbatim>\<open>cloud/storage/s3/s3.go\<close>\<close>

definition ACLPublicRead :: string where "ACLPublicRead = ''public-read''"
definition ACLPrivate :: string where "ACLPrivate = ''private''"

text \<open>
  Keys of the dial options. The source's constant \<^verbatim>\<open>bucketName\<close> shares its name with the
  field of \<^verbatim>\<open>s3Impl\<close>, and \<^verbatim>\<open>defaultACL\<close> is kept; the key is suffixed here.
\<close>

definition regionName :: string where "regionName = ''s3Region''"
definition bucketName_key :: string where "bucketName_key = ''s3BucketName''"
definition defaultACL :: string where "defaultACL = ''defaultACL''"
definition endpointURL :: string where "endpointURL = ''endpoint''"
definition pathstyle :: string where "pathstyle = ''pathstyle''"

record s3Impl =
  service :: "S3 option"
  bucketName :: string
  defaultWriteACL :: string

definition LinkBase :: "s3Impl \<Rightarrow> (string \<times> upspin_error option) outcome" where
  "LinkBase s =
     (case service s of
        None \<Rightarrow> Panics
      | Some c \<Rightarrow> Returns (Endpoint c @ ''/'' @ bucketName s @ ''/'', None))"

definition Download :: "s3Impl \<Rightarrow> string \<Rightarrow> world \<Rightarrow> ((upspin_error + byte list) \<times> world) outcome" where
  "Download s ref w =
     (case sdk_Download (service s) (bucketName s) ref w of
        Panics \<Rightarrow> Panics
      | Returns (Inl err, w') \<Rightarrow>
          if is404 err
          then Returns (Inl (E ''cloud/storage/amazons3.Download'' NotExist (Wrapped err)), w')
          else Returns (Inl (E ''cloud/storage/amazons3.Download'' IO
                 (Errorf ''unable to download ref %q from bucket %q: %s'' [ref, bucketName s, ErrorText err])), w')
      | Returns (Inr buf, w') \<Rightarrow> Returns (Inr buf, w'))"

definition Put :: "s3Impl \<Rightarrow> string \<Rightarrow> byte list \<Rightarrow> world \<Rightarrow> (upspin_error option \<times> world) outcome" where
  "Put s ref contents w =
     (case sdk_Upload (service s) (defaultWriteACL s) (bucketName s) ref contents w of
        Panics \<Rightarrow> Panics
      | Returns (Some err, w') \<Rightarrow>
          Returns (Some (E ''cloud/storage/amazons3.Put'' IO
            (Errorf ''unable to upload ref %q to bucket %q: %s'' [ref, bucketName s, ErrorText err])), w')
      | Returns (None, w') \<Rightarrow> Returns (None, w'))"

definition Delete :: "s3Impl \<Rightarrow> string \<Rightarrow> world \<Rightarrow> (upspin_error option \<times> world) outcome" where
  "Delete s ref w =
     (case sdk_DeleteObject (service s) (bucketName s) ref w of
        Panics \<Rightarrow> Panics
      | Returns (Some err, w') \<Rightarrow>
          Returns (Some (E ''cloud/storage/amazons3.Delete'' IO
            (Errorf ''unable to delete ref %q from bucket %q: %s'' [ref, bucketName s, ErrorText err])), w')
      | Returns (None, w') \<Rightarrow> Returns (None, w'))"

definition Close :: "s3Impl \<Rightarrow> s3Impl" where
  "Close s = s\<lparr>service := None, bucketName := []\<rparr>"


subsection \<open>\<^verbatim>\<open>strings.TrimSpace\<close>\<close>

text \<open>
  Go's \<^verbatim>\<open>strings.TrimSpace\<close> removes the leading and trailing white space of a string, a
  sequence of bytes read as UTF-8. \<open>white_space\<close> lists the UTF-8 encodings of the code
  points \<^verbatim>\<open>unicode.IsSpace\<close> accepts: tab, line feed, vertical tab, form feed, carriage
  return, space, U+0085, U+00A0, U+1680, U+2000 to U+200A, U+2028, U+2029, U+202F, U+205F
  and U+3000.
\<close>

definition white_space :: "string list" where
  "white_space =
     [[CHR 0x09], [CHR 0x0A], [CHR 0x0B], [CHR 0x0C], [CHR 0x0D], [CHR 0x20],
      [CHR 0xC2, CHR 0x85], [CHR 0xC2, CHR 0xA0], [CHR 0xE1, CHR 0x9A, CHR 0x80],
      [CHR 0xE2, CHR 0x80, CHR 0x80], [CHR 0xE2, CHR 0x80, CHR 0x81], [CHR 0xE2, CHR 0x80, CHR 0x82],
      [CHR 0xE2, CHR 0x80, CHR 0x83], [CHR 0xE2, CHR 0x80, CHR 0x84], [CHR 0xE2, CHR 0x80, CHR 0x85],
      [CHR 0xE2, CHR 0x80, CHR 0x86], [CHR 0xE2, CHR 0x80, CHR 0x87], [CHR 0xE2, CHR 0x80, CHR 0x88],
      [CHR 0xE2, CHR 0x80, CHR 0x89], [CHR 0xE2, CHR 0x80, CHR 0x8A], [CHR 0xE2, CHR 0x80, CHR 0xA8],
      [CHR 0xE2, CHR 0x80, CHR 0xA9], [CHR 0xE2, CHR 0x80, CHR 0xAF], [CHR 0xE2, CHR 0x81, CHR 0x9F],
      [CHR 0xE3, CHR 0x80, CHR 0x80]]"

text \<open>
  The loop of \<^verbatim>\<open>TrimLeftFunc\<close>: while the string starts with one of the encodings, drop it.
  \<^verbatim>\<open>TrimRightFunc\<close> does the same from the end.
\<close>

function TrimLeftFunc :: "string list \<Rightarrow> string \<Rightarrow> string" where
  "TrimLeftFunc encs s =
     (case List.find (\<lambda>p. p \<noteq> [] \<and> prefix p s) encs of
        None \<Rightarrow> s
      | Some p \<Rightarrow> TrimLeftFunc encs (drop (length p) s))"
  by pat_completeness auto
termination
  by (relation "measure (\<lambda>(encs, s). length s)") (auto simp: find_Some_iff prefix_def)

declare TrimLeftFunc.simps [simp del]

definition TrimRightFunc :: "string list \<Rightarrow> string \<Rightarrow> string" where
  "TrimRightFunc encs s = rev (TrimLeftFunc (map rev encs) (rev s))"

definition TrimSpace :: "string \<Rightarrow> string" where
  "TrimSpace s = TrimRightFunc white_space (TrimLeftFunc white_space s)"

subsection \<open>\<^verbatim>\<open>New\<close>\<close>

text \<open>
  \<^verbatim>\<open>opts.Opts\<close> is a \<^verbatim>\<open>map[string]string\<close> (a nil map reads as the empty one). The checks come
  in the source's order; the session is created only after all of them, and the client is
  built from it.
\<close>

definition New :: "(string \<rightharpoonup> string) \<Rightarrow> world \<Rightarrow> (upspin_error + s3Impl) \<times> world" where
  "New opts w =
     (case opts regionName of
        None \<Rightarrow> (Inl (E ''cloud/storage/amazons3.New'' Invalid (Errorf ''%q option is required'' [regionName])), w)
      | Some region \<Rightarrow>
     (let config = \<lparr>Region = region, Endpoint_cfg = opts endpointURL, S3ForcePathStyle = None\<rparr> in
      case opts bucketName_key of
        None \<Rightarrow> (Inl (E ''cloud/storage/amazons3.New'' Invalid (Errorf ''%q option is required'' [bucketName_key])), w)
      | Some bucket \<Rightarrow>
     (case opts defaultACL of
        None \<Rightarrow> (Inl (E ''cloud/storage/amazons3.New'' Invalid (Errorf ''%q option is required'' [defaultACL])), w)
      | Some acl \<Rightarrow>
     (case opts pathstyle of
        None \<Rightarrow> (Inl (E ''cloud/storage/amazons3.New'' Invalid (Errorf ''%q option is required'' [pathstyle])), w)
      | Some shouldPathstyle \<Rightarrow>
     (case (if TrimSpace shouldPathstyle = ''true'' then Some (config\<lparr>S3ForcePathStyle := Some True\<rparr>)
            else if TrimSpace shouldPathstyle = ''false'' then Some (config\<lparr>S3ForcePathStyle := Some False\<rparr>)
            else None) of
        None \<Rightarrow> (Inl (E ''cloud/storage/amazons3.New'' Invalid (Errorf ''%q must be true or false'' [pathstyle])), w)
      | Some config' \<Rightarrow>
          if acl \<noteq> ACLPrivate \<and> acl \<noteq> ACLPublicRead
          then (Inl (E ''cloud/storage/amazons3.New'' Invalid
                  (Errorf ''valid ACL values for S3 are %s and %s'' [ACLPrivate, ACLPublicRead])), w)
          else (let w' = w\<lparr>trace := trace w @ [NewSessionWithOptions config']\<rparr> in
                case session_error w of
                  Some err \<Rightarrow> (Inl (E ''cloud/storage/amazons3.New'' IO
                                (Errorf ''unable to create Amazon session: %s'' [ErrorText err])), w')
                | None \<Rightarrow> (Inr \<lparr>service = Some \<lparr>Endpoint = endpoints w config', Config = config'\<rparr>,
                                 bucketName = bucket, defaultWriteACL = acl\<rparr>, w')))))))"

subsection \<open>A caller: a sequence of calls on one adapter\<close>

datatype call =
    PutCall string "byte list"
  | DownloadCall string
  | DeleteCall string
  | LinkBaseCall
  | CloseCall

datatype reply =
    PutReply "upspin_error option"
  | DownloadReply "upspin_error + byte list"
  | DeleteReply "upspin_error option"
  | LinkBaseReply string "upspin_error option"
  | CloseReply

text \<open>
  The methods have pointer receivers, so each call leaves the adapter it found, changed or
  not, to the next call; a panic ends the sequence.
\<close>

fun exec :: "call \<Rightarrow> s3Impl \<times> world \<Rightarrow> (reply \<times> s3Impl \<times> world) outcome" where
  "exec (PutCall ref contents) (s, w) =
     (case Put s ref contents w of Panics \<Rightarrow> Panics | Returns (err, w') \<Rightarrow> Returns (PutReply err, s, w'))"
| "exec (DownloadCall ref) (s, w) =
     (case Download s ref w of Panics \<Rightarrow> Panics | Returns (r, w') \<Rightarrow> Returns (DownloadReply r, s, w'))"
| "exec (DeleteCall ref) (s, w) =
     (case Delete s ref w of Panics \<Rightarrow> Panics | Returns (err, w') \<Rightarrow> Returns (DeleteReply err, s, w'))"
| "exec LinkBaseCall (s, w) =
     (case LinkBase s of Panics \<Rightarrow> Panics | Returns (base, err) \<Rightarrow> Returns (LinkBaseReply base err, s, w))"
| "exec CloseCall (s, w) = Returns (CloseReply, Close s, w)"

fun run :: "call list \<Rightarrow> s3Impl \<times> world \<Rightarrow> (reply list \<times> s3Impl \<times> world) outcome" where
  "run [] (s, w) = Returns ([], s, w)"
| "run (c # cs) (s, w) =
     (case exec c (s, w) of
        Panics \<Rightarrow> Panics
      | Returns (r, s', w') \<Rightarrow>
          (case run cs (s', w') of
             Panics \<Rightarrow> Panics
           | Returns (rs, s'', w'') \<Rightarrow> Returns (r # rs, s'', w'')))"

section \<open>The provisioning command: \<^verbatim>\<open>cmd/upspin-setupstorage-aws\<close>\<close>

text \<open>The store configuration \<^verbatim>\<open>main\<close> writes into the server configuration file.\<close>

definition StoreConfig :: "string \<Rightarrow> string \<Rightarrow> string list" where
  "StoreConfig bucket region =
     [''backend=S3'', ''defaultACL=public-read'', ''s3BucketName='' @ bucket, ''s3Region='' @ region]"

text \<open>
  The server that reads the file (Upspin's own code, outside this repository) turns each
  \<^verbatim>\<open>key=value\<close> entry into an option; the key is what stands before the first \<^verbatim>\<open>=\<close>.
\<close>

definition entry_key :: "string \<Rightarrow> string" where
  "entry_key e = takeWhile (\<lambda>c. c \<noteq> CHR ''='') e"

definition entry_value :: "string \<Rightarrow> string" where
  "entry_value e = drop (Suc (length (entry_key e))) e"

definition options_of :: "string list \<Rightarrow> (string \<rightharpoonup> string)" where
  "options_of entries = map_of (map (\<lambda>e. (entry_key e, entry_value e)) entries)"

text \<open>
  \<^verbatim>\<open>clean\<close> repeats one pattern five times: issue the call and, when it fails, assert the error
  to \<^verbatim>\<open>awserr.RequestFailure\<close> with the unchecked form \<^verbatim>\<open>err.(awserr.RequestFailure)\<close>, which
  panics on any other error, then log the failure unless its status code is 404.
\<close>

definition teardown :: "event \<Rightarrow> string \<Rightarrow> string \<Rightarrow> world \<Rightarrow> world outcome" where
  "teardown ev format name w =
     (case client_call ev w of
        (None, w') \<Rightarrow> Returns w'
      | (Some err, w') \<Rightarrow>
          (case err of
             RequestFailure code msg \<Rightarrow>
               if code \<noteq> 404
               then Returns (w'\<lparr>logged := logged w' @ [(format, [name, ErrorText err])]\<rparr>)
               else Returns w'
           | PlainError msg \<Rightarrow> Panics))"

definition clean :: "string \<Rightarrow> string \<Rightarrow> string \<Rightarrow> world \<Rightarrow> world outcome" where
  "clean roleName bucket region w =
     (case teardown (DeleteBucket_call bucket region) ''unable to delete bucket %s: %s'' bucket
             (w\<lparr>logged := logged w @ [(''Cleaning up...'', [])]\<rparr>) of
        Panics \<Rightarrow> Panics
      | Returns w1 \<Rightarrow>
     (case teardown (RemoveRoleFromInstanceProfile_call roleName roleName)
             ''unable to remove role from instance profile %s: %s'' roleName w1 of
        Panics \<Rightarrow> Panics
      | Returns w2 \<Rightarrow>
     (case teardown (DeleteInstanceProfile_call roleName)
             ''unable to delete instance profile %s: %s'' roleName w2 of
        Panics \<Rightarrow> Panics
      | Returns w3 \<Rightarrow>
     (case teardown (DeleteRolePolicy_call ''upspin-access-policy'' roleName)
             ''unable to delete role %s: %s'' roleName w3 of
        Panics \<Rightarrow> Panics
      | Returns w4 \<Rightarrow>
          teardown (DeleteRole_call roleName) ''unable to delete role %s: %s'' roleName w4))))"

section \<open>A test double\<close>

text \<open>
  The concrete scenario of the specification: region \<^verbatim>\<open>us-east-1\<close>, bucket \<^verbatim>\<open>test\<close>, ACL
  \<^verbatim>\<open>private\<close>, path style off, against a service that holds nothing and serves every request.
\<close>

definition test_opts :: "string \<rightharpoonup> string" where
  "test_opts = [''s3Region'' \<mapsto> ''us-east-1'', ''s3BucketName'' \<mapsto> ''test'',
                ''defaultACL'' \<mapsto> ''private'', ''pathstyle'' \<mapsto> ''false'']"

definition test_config :: aws_Config where
  "test_config = \<lparr>Region = ''us-east-1'', Endpoint_cfg = None, S3ForcePathStyle = Some False\<rparr>"

definition test_adapter :: s3Impl where
  "test_adapter = \<lparr>service = Some \<lparr>Endpoint = ''https://s3.amazonaws.com'', Config = test_config\<rparr>,
                    bucketName = ''test'', defaultWriteACL = ''private''\<rparr>"

definition test_world :: world where
  "test_world = \<lparr>containers = (\<lambda>bucket. Map.empty), faults = [], trace = [], session_error = None,
                  endpoints = (\<lambda>config. ''https://s3.amazonaws.com''), logged = []\<rparr>"

definition hello :: "byte list" where
  "hello = [0x68, 0x65, 0x6C, 0x6C, 0x6F]"

text \<open>The same options with a space before the pathstyle flag, which turns path style on.\<close>

definition padded_opts :: "string \<rightharpoonup> string" where
  "padded_opts = [''s3Region'' \<mapsto> ''us-east-1'', ''s3BucketName'' \<mapsto> ''test'',
                  ''defaultACL'' \<mapsto> ''private'', ''pathstyle'' \<mapsto> '' true'']"

section \<open>Helper lemmas\<close>

lemmas sdk_defs = sdk_Upload_def sdk_Download_def sdk_DeleteObject_def client_call_def

lemmas method_defs = Put_def Download_def Delete_def LinkBase_def

lemmas key_defs = regionName_def bucketName_key_def defaultACL_def endpointURL_def pathstyle_def
  ACLPrivate_def ACLPublicRead_def

lemma TrimSpace_false: "TrimSpace ''false'' = ''false''"
  by code_simp

lemma TrimSpace_padded_true: "TrimSpace '' true'' = ''true''"
  by code_simp

text \<open>The adapter \<^verbatim>\<open>New\<close> returns has a client: it is live until \<^verbatim>\<open>Close\<close>.\<close>

lemma New_live: "New opts w = (Inr s, w') \<Longrightarrow> \<exists>c. service s = Some c"
  by (auto simp: New_def Let_def split: option.splits if_splits)

lemma New_test_opts: "fst (New test_opts test_world) = Inr test_adapter"
  by (simp add: New_def key_defs test_opts_def test_world_def test_adapter_def test_config_def
      TrimSpace_false)

text \<open>On a live adapter, every call but \<^verbatim>\<open>Close\<close> returns and leaves the adapter as it was.\<close>

lemma exec_frame:
  "service s = Some c \<Longrightarrow> x \<noteq> CloseCall \<Longrightarrow> \<exists>r w'. exec x (s, w) = Returns (r, s, w')"
  by (cases x) (auto simp: method_defs sdk_defs split: option.splits sum.splits)

text \<open>A call that is neither a put nor a delete of \<open>R\<close> leaves what the container holds at \<open>R\<close>.\<close>

lemma exec_keeps_ref:
  "service s = Some c \<Longrightarrow> x \<noteq> DeleteCall R \<Longrightarrow> (\<forall>d. x \<noteq> PutCall R d)
   \<Longrightarrow> exec x (s, w) = Returns (r, s', w')
   \<Longrightarrow> containers w' (bucketName s) R = containers w (bucketName s) R"
  by (cases x) (auto simp: method_defs sdk_defs split: option.splits sum.splits if_splits)

lemma run_keeps_ref:
  "service s = Some c
   \<Longrightarrow> \<forall>x\<in>set cs. x \<noteq> CloseCall \<and> x \<noteq> DeleteCall R \<and> (\<forall>d. x \<noteq> PutCall R d)
   \<Longrightarrow> \<exists>rs w'. run cs (s, w) = Returns (rs, s, w')
         \<and> containers w' (bucketName s) R = containers w (bucketName s) R"
proof (induction cs arbitrary: w)
  case Nil
  then show ?case by simp
next
  case (Cons x cs)
  from Cons.prems have nx: "x \<noteq> CloseCall" "x \<noteq> DeleteCall R" "\<forall>d. x \<noteq> PutCall R d"
    by auto
  with Cons.prems(1) obtain r w1 where x: "exec x (s, w) = Returns (r, s, w1)"
    using exec_frame by blast
  from exec_keeps_ref [OF Cons.prems(1) nx(2) nx(3) x]
  have k1: "containers w1 (bucketName s) R = containers w (bucketName s) R" .
  from Cons.prems
  have "\<forall>x\<in>set cs. x \<noteq> CloseCall \<and> x \<noteq> DeleteCall R \<and> (\<forall>d. x \<noteq> PutCall R d)"
    by auto
  from Cons.IH [OF Cons.prems(1) this] obtain rs w2 where
    r: "run cs (s, w1) = Returns (rs, s, w2)"
    and k2: "containers w2 (bucketName s) R = containers w1 (bucketName s) R"
    by blast
  from x r k1 k2 show ?case by simp
qed

lemma Put_stores:
  "Put s R B w = Returns (None, w1) \<Longrightarrow> containers w1 (bucketName s) R = Some B"
  by (auto simp: method_defs sdk_defs split: option.splits)

lemma Download_present:
  "service s = Some c \<Longrightarrow> containers w (bucketName s) R = Some B \<Longrightarrow>
    (next_fault w = None \<longrightarrow> (\<exists>w'. Download s R w = Returns (Inr B, w')))
    \<and> (\<forall>d w'. Download s R w = Returns (Inr d, w') \<longrightarrow> d = B)"
  by (auto simp: method_defs sdk_defs split: option.splits)

text \<open>
  One teardown step of \<^verbatim>\<open>clean\<close>: a served call logs nothing, a request failure is logged unless
  its status code is 404, and the step returns in both cases; any other error panics.
\<close>

lemma teardown_request_failure:
  "next_fault w = Some (RequestFailure code msg) \<Longrightarrow>
     \<exists>w'. teardown ev format name w = Returns w' \<and> trace w' = trace w @ [ev]
        \<and> logged w' = (if code \<noteq> 404 then logged w @ [(format, [name, msg])] else logged w)"
  by (simp add: teardown_def client_call_def)

lemma teardown_served:
  "next_fault w = None \<Longrightarrow>
     \<exists>w'. teardown ev format name w = Returns w' \<and> trace w' = trace w @ [ev] \<and> logged w' = logged w"
  by (simp add: teardown_def client_call_def)

lemma teardown_plain_error:
  "next_fault w = Some (PlainError msg) \<Longrightarrow> teardown ev format name w = Panics"
  by (simp add: teardown_def client_call_def)

section \<open>The claims\<close>

text \<open>
  C1. Round trip and last-write-wins. On a live adapter, after a successful \<open>Put s R B\<close>, and
  after any further calls that are neither a put nor a delete of \<open>R\<close> (nor \<^verbatim>\<open>Close\<close>), all of
  which return, \<open>Download s R\<close> returns exactly \<open>B\<close> when the service serves the request, and no
  download of \<open>R\<close> returns any other bytes. \<open>B\<close> is any byte sequence, the empty one included,
  and the world before the put is any world: when it is the world a put of \<open>B1\<close> at \<open>R\<close> left,
  the download returns \<open>B\<close> and not \<open>B1\<close>.
\<close>

theorem Put_then_Download:
  assumes "service s = Some c"
    and "Put s R B w = Returns (None, w1)"
    and "\<forall>x\<in>set cs. x \<noteq> CloseCall \<and> x \<noteq> DeleteCall R \<and> (\<forall>d. x \<noteq> PutCall R d)"
  shows "\<exists>rs w2. run cs (s, w1) = Returns (rs, s, w2)
           \<and> (next_fault w2 = None \<longrightarrow> (\<exists>w3. Download s R w2 = Returns (Inr B, w3)))
           \<and> (\<forall>d w3. Download s R w2 = Returns (Inr d, w3) \<longrightarrow> d = B)"
proof -
  from run_keeps_ref [OF assms(1) assms(3)] obtain rs w2 where
    r: "run cs (s, w1) = Returns (rs, s, w2)"
    and k: "containers w2 (bucketName s) R = containers w1 (bucketName s) R"
    by blast
  from k Put_stores [OF assms(2)] have "containers w2 (bucketName s) R = Some B" by simp
  from Download_present [OF assms(1) this]
  have d: "(next_fault w2 = None \<longrightarrow> (\<exists>w3. Download s R w2 = Returns (Inr B, w3)))
           \<and> (\<forall>d w3. Download s R w2 = Returns (Inr d, w3) \<longrightarrow> d = B)" .
  show ?thesis
    by (rule exI [of _ rs], rule exI [of _ w2]) (use r d in simp)
qed

theorem Put_then_Download_witness:
  "\<exists>w0 w1. Put test_adapter ''k1'' [0x01] test_world = Returns (None, w0)
      \<and> Put test_adapter ''k1'' hello w0 = Returns (None, w1)
      \<and> (\<exists>rs w2. run [LinkBaseCall, PutCall ''k2'' [0x02], DownloadCall ''k1'', DeleteCall ''k2'']
                     (test_adapter, w1) = Returns (rs, test_adapter, w2)
            \<and> (next_fault w2 = None \<longrightarrow> (\<exists>w3. Download test_adapter ''k1'' w2 = Returns (Inr hello, w3)))
            \<and> (\<forall>d w3. Download test_adapter ''k1'' w2 = Returns (Inr d, w3) \<longrightarrow> d = hello))"
proof -
  have live: "service test_adapter = Some \<lparr>Endpoint = ''https://s3.amazonaws.com'', Config = test_config\<rparr>"
    by (simp add: test_adapter_def)
  have "\<exists>w0. Put test_adapter ''k1'' [0x01] test_world = Returns (None, w0)"
    by (simp add: method_defs sdk_defs test_adapter_def test_world_def next_fault_def)
  then obtain w0 where p0: "Put test_adapter ''k1'' [0x01] test_world = Returns (None, w0)" ..
  then have "next_fault w0 = None"
    by (auto simp: method_defs sdk_defs test_adapter_def test_world_def next_fault_def)
  then have "\<exists>w1. Put test_adapter ''k1'' hello w0 = Returns (None, w1)"
    by (simp add: method_defs sdk_defs test_adapter_def)
  then obtain w1 where p1: "Put test_adapter ''k1'' hello w0 = Returns (None, w1)" ..
  have others: "\<forall>x\<in>set [LinkBaseCall, PutCall ''k2'' [0x02], DownloadCall ''k1'', DeleteCall ''k2''].
                  x \<noteq> CloseCall \<and> x \<noteq> DeleteCall ''k1'' \<and> (\<forall>d. x \<noteq> PutCall ''k1'' d)"
    by simp
  note c = Put_then_Download [OF live p1 others]
  show ?thesis
    by (rule exI [of _ w0], rule exI [of _ w1]) (intro conjI p0 p1 c)
qed

text \<open>
  C2. Failures of the underlying client are classified once and returned at once. Whenever
  the single SDK call of \<^verbatim>\<open>Download\<close>, \<^verbatim>\<open>Put\<close> or \<^verbatim>\<open>Delete\<close> fails with an error \<open>e\<close>, leaving the world
  \<open>w'\<close>, the method returns an error in that same world, having issued exactly that one call
  (no retry). The error \<^verbatim>\<open>Download\<close> returns has kind \<open>NotExist\<close> exactly when \<open>e\<close> is a request
  failure with status code 404, and it then wraps \<open>e\<close> itself; for every other \<open>e\<close> its kind is
  \<open>IO\<close>. The errors of \<^verbatim>\<open>Put\<close> and \<^verbatim>\<open>Delete\<close> have kind \<open>IO\<close> for every \<open>e\<close>, a 404 included. Each \<open>IO\<close>
  error holds the message built from the ref, the bucket name and the text of \<open>e\<close>, in that
  order.
\<close>

theorem failures_classified_once:
  "(sdk_Download (service s) (bucketName s) ref w = Returns (Inl e, w') \<longrightarrow>
      (\<exists>err. Download s ref w = Returns (Inl err, w')
         \<and> Op err = ''cloud/storage/amazons3.Download''
         \<and> (Kind err = NotExist \<longleftrightarrow> (\<exists>msg. e = RequestFailure 404 msg))
         \<and> (Kind err = IO \<longleftrightarrow> \<not> (\<exists>msg. e = RequestFailure 404 msg))
         \<and> Err err =
             (case e of
                RequestFailure code msg \<Rightarrow>
                  if code = 404 then Wrapped e
                  else Errorf ''unable to download ref %q from bucket %q: %s'' [ref, bucketName s, msg]
              | PlainError msg \<Rightarrow>
                  Errorf ''unable to download ref %q from bucket %q: %s'' [ref, bucketName s, msg]))
      \<and> trace w' = trace w @ [GetObject_call (bucketName s) ref])
   \<and> (sdk_Upload (service s) (defaultWriteACL s) (bucketName s) ref contents w = Returns (Some e, w') \<longrightarrow>
      (\<exists>err. Put s ref contents w = Returns (Some err, w')
         \<and> Op err = ''cloud/storage/amazons3.Put''
         \<and> Kind err = IO
         \<and> Err err = Errorf ''unable to upload ref %q to bucket %q: %s''
                        [ref, bucketName s, case e of RequestFailure code msg \<Rightarrow> msg | PlainError msg \<Rightarrow> msg])
      \<and> trace w' = trace w @ [Upload_call (defaultWriteACL s) (bucketName s) ref contents])
   \<and> (sdk_DeleteObject (service s) (bucketName s) ref w = Returns (Some e, w') \<longrightarrow>
      (\<exists>err. Delete s ref w = Returns (Some err, w')
         \<and> Op err = ''cloud/storage/amazons3.Delete''
         \<and> Kind err = IO
         \<and> Err err = Errorf ''unable to delete ref %q from bucket %q: %s''
                        [ref, bucketName s, case e of RequestFailure code msg \<Rightarrow> msg | PlainError msg \<Rightarrow> msg])
      \<and> trace w' = trace w @ [DeleteObject_call (bucketName s) ref])"
proof (intro conjI impI)
  assume "sdk_Download (service s) (bucketName s) ref w = Returns (Inl e, w')"
  then show "\<exists>err. Download s ref w = Returns (Inl err, w')
         \<and> Op err = ''cloud/storage/amazons3.Download''
         \<and> (Kind err = NotExist \<longleftrightarrow> (\<exists>msg. e = RequestFailure 404 msg))
         \<and> (Kind err = IO \<longleftrightarrow> \<not> (\<exists>msg. e = RequestFailure 404 msg))
         \<and> Err err =
             (case e of
                RequestFailure code msg \<Rightarrow>
                  if code = 404 then Wrapped e
                  else Errorf ''unable to download ref %q from bucket %q: %s'' [ref, bucketName s, msg]
              | PlainError msg \<Rightarrow>
                  Errorf ''unable to download ref %q from bucket %q: %s'' [ref, bucketName s, msg])"
    by (cases e) (simp_all add: Download_def E_def)
next
  assume "sdk_Download (service s) (bucketName s) ref w = Returns (Inl e, w')"
  then show "trace w' = trace w @ [GetObject_call (bucketName s) ref]"
    by (auto simp: sdk_defs split: option.splits)
next
  assume "sdk_Upload (service s) (defaultWriteACL s) (bucketName s) ref contents w = Returns (Some e, w')"
  then show "\<exists>err. Put s ref contents w = Returns (Some err, w')
         \<and> Op err = ''cloud/storage/amazons3.Put''
         \<and> Kind err = IO
         \<and> Err err = Errorf ''unable to upload ref %q to bucket %q: %s''
                        [ref, bucketName s, case e of RequestFailure code msg \<Rightarrow> msg | PlainError msg \<Rightarrow> msg]"
    by (cases e) (simp_all add: Put_def E_def)
next
  assume "sdk_Upload (service s) (defaultWriteACL s) (bucketName s) ref contents w = Returns (Some e, w')"
  then show "trace w' = trace w @ [Upload_call (defaultWriteACL s) (bucketName s) ref contents]"
    by (auto simp: sdk_defs split: option.splits)
next
  assume "sdk_DeleteObject (service s) (bucketName s) ref w = Returns (Some e, w')"
  then show "\<exists>err. Delete s ref w = Returns (Some err, w')
         \<and> Op err = ''cloud/storage/amazons3.Delete''
         \<and> Kind err = IO
         \<and> Err err = Errorf ''unable to delete ref %q from bucket %q: %s''
                        [ref, bucketName s, case e of RequestFailure code msg \<Rightarrow> msg | PlainError msg \<Rightarrow> msg]"
    by (cases e) (simp_all add: Delete_def E_def)
next
  assume "sdk_DeleteObject (service s) (bucketName s) ref w = Returns (Some e, w')"
  then show "trace w' = trace w @ [DeleteObject_call (bucketName s) ref]"
    by (auto simp: sdk_defs split: option.splits)
qed

theorem failures_classified_once_witness:
  "(\<exists>err w'. Download test_adapter ''k1'' (test_world\<lparr>faults := [Some (RequestFailure 500 ''InternalError'')]\<rparr>)
                 = Returns (Inl err, w')
         \<and> Op err = ''cloud/storage/amazons3.Download'' \<and> Kind err = IO
         \<and> Err err = Errorf ''unable to download ref %q from bucket %q: %s'' [''k1'', ''test'', ''InternalError'']
         \<and> trace w' = [GetObject_call ''test'' ''k1''])
   \<and> (\<exists>err w'. Download test_adapter ''k1'' (test_world\<lparr>faults := [Some (RequestFailure 404 ''NotFound'')]\<rparr>)
                 = Returns (Inl err, w')
         \<and> Op err = ''cloud/storage/amazons3.Download'' \<and> Kind err = NotExist
         \<and> Err err = Wrapped (RequestFailure 404 ''NotFound'')
         \<and> trace w' = [GetObject_call ''test'' ''k1''])
   \<and> (\<exists>err w'. Put test_adapter ''k1'' hello (test_world\<lparr>faults := [Some (RequestFailure 404 ''NotFound'')]\<rparr>)
                 = Returns (Some err, w')
         \<and> Op err = ''cloud/storage/amazons3.Put'' \<and> Kind err = IO
         \<and> Err err = Errorf ''unable to upload ref %q to bucket %q: %s'' [''k1'', ''test'', ''NotFound'']
         \<and> trace w' = [Upload_call ''private'' ''test'' ''k1'' hello])
   \<and> (\<exists>err w'. Delete test_adapter ''k1'' (test_world\<lparr>faults := [Some (PlainError ''RequestError'')]\<rparr>)
                 = Returns (Some err, w')
         \<and> Op err = ''cloud/storage/amazons3.Delete'' \<and> Kind err = IO
         \<and> Err err = Errorf ''unable to delete ref %q from bucket %q: %s'' [''k1'', ''test'', ''RequestError'']
         \<and> trace w' = [DeleteObject_call ''test'' ''k1''])"
proof -
  let ?e500 = "RequestFailure 500 ''InternalError''"
  let ?e404 = "RequestFailure 404 ''NotFound''"
  let ?plain = "PlainError ''RequestError''"
  have "\<exists>w'. sdk_Download (service test_adapter) (bucketName test_adapter) ''k1'' (test_world\<lparr>faults := [Some ?e500]\<rparr>)
              = Returns (Inl ?e500, w')"
    by (simp add: sdk_defs next_fault_def test_adapter_def)
  then obtain w1 where f1:
    "sdk_Download (service test_adapter) (bucketName test_adapter) ''k1'' (test_world\<lparr>faults := [Some ?e500]\<rparr>)
       = Returns (Inl ?e500, w1)" ..
  from failures_classified_once [where s = test_adapter and ref = "''k1''" and e = ?e500 and w' = w1] f1
  obtain err1 where
    "Download test_adapter ''k1'' (test_world\<lparr>faults := [Some ?e500]\<rparr>) = Returns (Inl err1, w1)
       \<and> Op err1 = ''cloud/storage/amazons3.Download'' \<and> Kind err1 = IO
       \<and> Err err1 = Errorf ''unable to download ref %q from bucket %q: %s'' [''k1'', ''test'', ''InternalError'']
       \<and> trace w1 = [GetObject_call ''test'' ''k1'']"
    by (auto simp: test_adapter_def test_world_def)
  then have a: "\<exists>err w'. Download test_adapter ''k1'' (test_world\<lparr>faults := [Some ?e500]\<rparr>) = Returns (Inl err, w')
       \<and> Op err = ''cloud/storage/amazons3.Download'' \<and> Kind err = IO
       \<and> Err err = Errorf ''unable to download ref %q from bucket %q: %s'' [''k1'', ''test'', ''InternalError'']
       \<and> trace w' = [GetObject_call ''test'' ''k1'']"
    by (intro exI [of _ err1] exI [of _ w1])
  have "\<exists>w'. sdk_Download (service test_adapter) (bucketName test_adapter) ''k1'' (test_world\<lparr>faults := [Some ?e404]\<rparr>)
              = Returns (Inl ?e404, w')"
    by (simp add: sdk_defs next_fault_def test_adapter_def)
  then obtain w2 where f2:
    "sdk_Download (service test_adapter) (bucketName test_adapter) ''k1'' (test_world\<lparr>faults := [Some ?e404]\<rparr>)
       = Returns (Inl ?e404, w2)" ..
  from failures_classified_once [where s = test_adapter and ref = "''k1''" and e = ?e404 and w' = w2] f2
  obtain err2 where
    "Download test_adapter ''k1'' (test_world\<lparr>faults := [Some ?e404]\<rparr>) = Returns (Inl err2, w2)
       \<and> Op err2 = ''cloud/storage/amazons3.Download'' \<and> Kind err2 = NotExist
       \<and> Err err2 = Wrapped ?e404
       \<and> trace w2 = [GetObject_call ''test'' ''k1'']"
    by (auto simp: test_adapter_def test_world_def)
  then have b: "\<exists>err w'. Download test_adapter ''k1'' (test_world\<lparr>faults := [Some ?e404]\<rparr>) = Returns (Inl err, w')
       \<and> Op err = ''cloud/storage/amazons3.Download'' \<and> Kind err = NotExist
       \<and> Err err = Wrapped ?e404
       \<and> trace w' = [GetObject_call ''test'' ''k1'']"
    by (intro exI [of _ err2] exI [of _ w2])
  have "\<exists>w'. sdk_Upload (service test_adapter) (defaultWriteACL test_adapter) (bucketName test_adapter) ''k1'' hello
                (test_world\<lparr>faults := [Some ?e404]\<rparr>) = Returns (Some ?e404, w')"
    by (simp add: sdk_defs next_fault_def test_adapter_def)
  then obtain w3 where f3:
    "sdk_Upload (service test_adapter) (defaultWriteACL test_adapter) (bucketName test_adapter) ''k1'' hello
       (test_world\<lparr>faults := [Some ?e404]\<rparr>) = Returns (Some ?e404, w3)" ..
  from failures_classified_once [where s = test_adapter and ref = "''k1''" and contents = hello and e = ?e404 and w' = w3] f3
  obtain err3 where
    "Put test_adapter ''k1'' hello (test_world\<lparr>faults := [Some ?e404]\<rparr>) = Returns (Some err3, w3)
       \<and> Op err3 = ''cloud/storage/amazons3.Put'' \<and> Kind err3 = IO
       \<and> Err err3 = Errorf ''unable to upload ref %q to bucket %q: %s'' [''k1'', ''test'', ''NotFound'']
       \<and> trace w3 = [Upload_call ''private'' ''test'' ''k1'' hello]"
    by (auto simp: test_adapter_def test_world_def)
  then have c: "\<exists>err w'. Put test_adapter ''k1'' hello (test_world\<lparr>faults := [Some ?e404]\<rparr>) = Returns (Some err, w')
       \<and> Op err = ''cloud/storage/amazons3.Put'' \<and> Kind err = IO
       \<and> Err err = Errorf ''unable to upload ref %q to bucket %q: %s'' [''k1'', ''test'', ''NotFound'']
       \<and> trace w' = [Upload_call ''private'' ''test'' ''k1'' hello]"
    by (intro exI [of _ err3] exI [of _ w3])
  have "\<exists>w'. sdk_DeleteObject (service test_adapter) (bucketName test_adapter) ''k1''
                (test_world\<lparr>faults := [Some ?plain]\<rparr>) = Returns (Some ?plain, w')"
    by (simp add: sdk_defs next_fault_def test_adapter_def)
  then obtain w4 where f4:
    "sdk_DeleteObject (service test_adapter) (bucketName test_adapter) ''k1''
       (test_world\<lparr>faults := [Some ?plain]\<rparr>) = Returns (Some ?plain, w4)" ..
  from failures_classified_once [where s = test_adapter and ref = "''k1''" and e = ?plain and w' = w4] f4
  obtain err4 where
    "Delete test_adapter ''k1'' (test_world\<lparr>faults := [Some ?plain]\<rparr>) = Returns (Some err4, w4)
       \<and> Op err4 = ''cloud/storage/amazons3.Delete'' \<and> Kind err4 = IO
       \<and> Err err4 = Errorf ''unable to delete ref %q from bucket %q: %s'' [''k1'', ''test'', ''RequestError'']
       \<and> trace w4 = [DeleteObject_call ''test'' ''k1'']"
    by (auto simp: test_adapter_def test_world_def)
  then have d: "\<exists>err w'. Delete test_adapter ''k1'' (test_world\<lparr>faults := [Some ?plain]\<rparr>) = Returns (Some err, w')
       \<and> Op err = ''cloud/storage/amazons3.Delete'' \<and> Kind err = IO
       \<and> Err err = Errorf ''unable to delete ref %q from bucket %q: %s'' [''k1'', ''test'', ''RequestError'']
       \<and> trace w' = [DeleteObject_call ''test'' ''k1'']"
    by (intro exI [of _ err4] exI [of _ w4])
  from a b c d show ?thesis by (intro conjI)
qed

text \<open>
  C4. \<^verbatim>\<open>Delete\<close> on a live adapter. When the service serves the request, \<open>Delete s R\<close> returns no
  error whether or not \<open>R\<close> is present, and when \<open>R\<close> was absent the containers are as before
  (a no-op success). After a \<^verbatim>\<open>Delete\<close> that returned no error, \<open>Download s R\<close> fails, and with
  \<open>NotExist\<close> when the service serves the request. Every error \<^verbatim>\<open>Delete\<close> returns has kind \<open>IO\<close>,
  never \<open>NotExist\<close>.
\<close>

theorem Delete_then_Download:
  assumes "service s = Some c"
  shows "(next_fault w = None \<longrightarrow>
            (\<exists>w'. Delete s R w = Returns (None, w')
               \<and> (containers w (bucketName s) R = None \<longrightarrow> containers w' = containers w)))
       \<and> (\<forall>w1. Delete s R w = Returns (None, w1) \<longrightarrow>
            (\<exists>e w2. Download s R w1 = Returns (Inl e, w2)
               \<and> (next_fault w1 = None \<longrightarrow> Kind e = NotExist)))
       \<and> (\<forall>e w'. Delete s R w = Returns (Some e, w') \<longrightarrow> Kind e = IO \<and> Kind e \<noteq> NotExist)"
proof (intro conjI)
  show "next_fault w = None \<longrightarrow>
          (\<exists>w'. Delete s R w = Returns (None, w')
             \<and> (containers w (bucketName s) R = None \<longrightarrow> containers w' = containers w))"
    using assms by (auto simp: Delete_def sdk_defs fun_upd_idem)
  show "\<forall>w1. Delete s R w = Returns (None, w1) \<longrightarrow>
          (\<exists>e w2. Download s R w1 = Returns (Inl e, w2)
             \<and> (next_fault w1 = None \<longrightarrow> Kind e = NotExist))"
    using assms
    by (auto simp: Delete_def Download_def sdk_defs E_def split: option.splits)
  show "\<forall>e w'. Delete s R w = Returns (Some e, w') \<longrightarrow> Kind e = IO \<and> Kind e \<noteq> NotExist"
    by (auto simp: Delete_def sdk_defs E_def split: option.splits)
qed

theorem Delete_then_Download_witness:
  "(\<exists>w'. Delete test_adapter ''never-written'' test_world = Returns (None, w')
        \<and> containers w' = containers test_world)
   \<and> (\<exists>w0 w1 e w2. Put test_adapter ''k1'' hello test_world = Returns (None, w0)
        \<and> Delete test_adapter ''k1'' w0 = Returns (None, w1)
        \<and> Download test_adapter ''k1'' w1 = Returns (Inl e, w2) \<and> Kind e = NotExist)
   \<and> (\<exists>e w'. Delete test_adapter ''k1'' (test_world\<lparr>faults := [Some (RequestFailure 404 ''NotFound'')]\<rparr>)
                 = Returns (Some e, w') \<and> Kind e = IO)"
proof -
  have live: "service test_adapter = Some \<lparr>Endpoint = ''https://s3.amazonaws.com'', Config = test_config\<rparr>"
    by (simp add: test_adapter_def)
  have served: "next_fault test_world = None"
    by (simp add: next_fault_def test_world_def)
  have absent: "containers test_world (bucketName test_adapter) ''never-written'' = None"
    by (simp add: test_world_def)
  from Delete_then_Download [OF live, of test_world "''never-written''"] served absent
  have a: "\<exists>w'. Delete test_adapter ''never-written'' test_world = Returns (None, w')
             \<and> containers w' = containers test_world"
    by simp
  have "\<exists>w0. Put test_adapter ''k1'' hello test_world = Returns (None, w0) \<and> faults w0 = []"
    by (simp add: method_defs sdk_defs test_adapter_def test_world_def next_fault_def)
  then obtain w0 where p: "Put test_adapter ''k1'' hello test_world = Returns (None, w0)"
    and f0: "faults w0 = []" by blast
  from f0 have s0: "next_fault w0 = None"
    by (simp add: next_fault_def)
  from Delete_then_Download [OF live, of w0 "''k1''"] s0
  obtain w1 where d: "Delete test_adapter ''k1'' w0 = Returns (None, w1)" by blast
  with f0 have s1: "next_fault w1 = None"
    by (auto simp: Delete_def sdk_defs next_fault_def test_adapter_def split: option.splits)
  from Delete_then_Download [OF live, of w0 "''k1''"] d s1
  obtain e w2 where g: "Download test_adapter ''k1'' w1 = Returns (Inl e, w2)" "Kind e = NotExist"
    by blast
  from p d g
  have b: "\<exists>w0 w1 e w2. Put test_adapter ''k1'' hello test_world = Returns (None, w0)
        \<and> Delete test_adapter ''k1'' w0 = Returns (None, w1)
        \<and> Download test_adapter ''k1'' w1 = Returns (Inl e, w2) \<and> Kind e = NotExist"
    by (intro exI [of _ w0] exI [of _ w1] exI [of _ e] exI [of _ w2]) simp
  let ?wf = "test_world\<lparr>faults := [Some (RequestFailure 404 ''NotFound'')]\<rparr>"
  have "\<exists>e w'. Delete test_adapter ''k1'' ?wf = Returns (Some e, w')"
    by (simp add: Delete_def sdk_defs next_fault_def test_adapter_def)
  then obtain e' w' where f: "Delete test_adapter ''k1'' ?wf = Returns (Some e', w')" by blast
  with Delete_then_Download [OF live, of ?wf "''k1''"] have "Kind e' = IO" by blast
  with f have c: "\<exists>e w'. Delete test_adapter ''k1'' ?wf = Returns (Some e, w') \<and> Kind e = IO"
    by blast
  from a b c show ?thesis by (intro conjI)
qed

text \<open>
  C5. On a live adapter (one \<^verbatim>\<open>New\<close> returned and \<^verbatim>\<open>Close\<close> has not cleared) \<^verbatim>\<open>LinkBase\<close> returns
  the client's endpoint, \<^verbatim>\<open>/\<close>, the bucket name and \<^verbatim>\<open>/\<close>, with a nil error. It depends on the
  adapter's fields alone and issues no client call: as one call of a sequence it leaves the
  world and the adapter as they were.
\<close>

theorem LinkBase_value:
  assumes "service s = Some c"
  shows "LinkBase s = Returns (Endpoint c @ ''/'' @ bucketName s @ ''/'', None)
       \<and> exec LinkBaseCall (s, w) = Returns (LinkBaseReply (Endpoint c @ ''/'' @ bucketName s @ ''/'') None, s, w)"
  using assms by (simp add: LinkBase_def)

theorem LinkBase_value_witness:
  "fst (New test_opts test_world) = Inr test_adapter
   \<and> LinkBase test_adapter = Returns (''https://s3.amazonaws.com/test/'', None)
   \<and> exec LinkBaseCall (test_adapter, test_world)
       = Returns (LinkBaseReply ''https://s3.amazonaws.com/test/'' None, test_adapter, test_world)"
proof -
  have live: "service test_adapter = Some \<lparr>Endpoint = ''https://s3.amazonaws.com'', Config = test_config\<rparr>"
    by (simp add: test_adapter_def)
  from LinkBase_value [OF live, of test_world] New_test_opts show ?thesis
    by (simp add: test_adapter_def)
qed

text \<open>
  C6. \<^verbatim>\<open>Close\<close> sets the client handle to nil and the bucket name to the empty string, and
  leaves the default ACL. A second \<^verbatim>\<open>Close\<close> changes nothing. \<^verbatim>\<open>Close\<close> issues no client call: as a
  call of a sequence it returns and leaves the world as it was.
\<close>

theorem Close_idempotent:
  "service (Close s) = None \<and> bucketName (Close s) = [] \<and> defaultWriteACL (Close s) = defaultWriteACL s
   \<and> Close (Close s) = Close s
   \<and> exec CloseCall (s, w) = Returns (CloseReply, Close s, w)
   \<and> run [CloseCall, CloseCall] (s, w) = Returns ([CloseReply, CloseReply], Close s, w)"
  by (simp add: Close_def)

theorem Close_idempotent_witness:
  "Close test_adapter = \<lparr>service = None, bucketName = [], defaultWriteACL = ''private''\<rparr>
   \<and> Close (Close test_adapter) = Close test_adapter
   \<and> run [CloseCall, CloseCall] (test_adapter, test_world)
       = Returns ([CloseReply, CloseReply], Close test_adapter, test_world)"
  using Close_idempotent [of test_adapter test_world]
  by (simp add: Close_def test_adapter_def)

text \<open>
  C7. On a live adapter, every sequence of \<^verbatim>\<open>Put\<close>, \<^verbatim>\<open>Download\<close>, \<^verbatim>\<open>Delete\<close> and \<^verbatim>\<open>LinkBase\<close> calls
  returns and ends with the adapter it started with, all three fields unchanged, whatever
  the calls' outcomes. \<^verbatim>\<open>Close\<close> is the one call that changes it.
\<close>

theorem calls_leave_adapter_unchanged:
  assumes "service s = Some c"
    and "CloseCall \<notin> set cs"
  shows "(\<exists>rs w'. run cs (s, w) = Returns (rs, s, w'))
       \<and> exec CloseCall (s, w) = Returns (CloseReply, Close s, w) \<and> Close s \<noteq> s"
proof -
  from assms(2) have "\<exists>rs w'. run cs (s, w) = Returns (rs, s, w')"
  proof (induction cs arbitrary: w)
    case Nil
    then show ?case by simp
  next
    case (Cons x cs)
    then have "x \<noteq> CloseCall" by auto
    with assms(1) obtain r w1 where x: "exec x (s, w) = Returns (r, s, w1)"
      using exec_frame by blast
    from Cons have "\<exists>rs w'. run cs (s, w1) = Returns (rs, s, w')" by auto
    with x show ?case by auto
  qed
  moreover from assms(1) have "Close s \<noteq> s"
    by (auto simp: Close_def dest: arg_cong [where f = service])
  ultimately show ?thesis by simp
qed

theorem calls_leave_adapter_unchanged_witness:
  "(\<exists>rs w'. run [PutCall ''k1'' hello, DownloadCall ''k1'', LinkBaseCall, DeleteCall ''k1'', DownloadCall ''k1'']
              (test_adapter, test_world\<lparr>faults := [None, Some (PlainError ''RequestError'')]\<rparr>)
            = Returns (rs, test_adapter, w'))
   \<and> Close test_adapter \<noteq> test_adapter"
proof -
  have live: "service test_adapter = Some \<lparr>Endpoint = ''https://s3.amazonaws.com'', Config = test_config\<rparr>"
    by (simp add: test_adapter_def)
  have noclose: "CloseCall \<notin> set [PutCall ''k1'' hello, DownloadCall ''k1'', LinkBaseCall, DeleteCall ''k1'', DownloadCall ''k1'']"
    by simp
  from calls_leave_adapter_unchanged [OF live noclose] show ?thesis by simp
qed

text \<open>
  C10. After \<^verbatim>\<open>Close\<close> the client handle is nil and no method checks for it: \<^verbatim>\<open>LinkBase\<close> reads
  the endpoint through the nil handle, and \<^verbatim>\<open>Put\<close>, \<^verbatim>\<open>Download\<close> and \<^verbatim>\<open>Delete\<close> hand it to the SDK,
  which dereferences it. Each of the four panics, for every argument and every world; none
  returns an error value.
\<close>

theorem calls_after_Close_panic:
  "LinkBase (Close s) = Panics
   \<and> Put (Close s) ref contents w = Panics
   \<and> Download (Close s) ref w = Panics
   \<and> Delete (Close s) ref w = Panics
   \<and> run [CloseCall, LinkBaseCall] (s, w) = Panics"
  by (simp add: Close_def method_defs sdk_defs)

theorem calls_after_Close_panic_witness:
  "LinkBase (Close test_adapter) = Panics
   \<and> Put (Close test_adapter) ''k1'' hello test_world = Panics
   \<and> Download (Close test_adapter) ''k1'' test_world = Panics
   \<and> Delete (Close test_adapter) ''k1'' test_world = Panics"
  using calls_after_Close_panic [of test_adapter "''k1''" hello test_world] by simp

text \<open>
  C3, as stated, fails: \<^verbatim>\<open>New\<close> compares the pathstyle flag after \<^verbatim>\<open>strings.TrimSpace\<close>, so a flag
  that is neither the literal \<^verbatim>\<open>true\<close> nor the literal \<^verbatim>\<open>false\<close> is accepted when it only has
  white space around one of them. With the flag \<^verbatim>\<open>" true"\<close> and the other options valid, the
  stated condition for an Invalid failure holds and \<^verbatim>\<open>New\<close> does not fail.
\<close>

theorem New_literal_flag_counterexample:
  "\<not> ((\<exists>e. fst (New padded_opts test_world) = Inl e \<and> Kind e = Invalid) \<longleftrightarrow>
        (padded_opts ''s3Region'' = None \<or> padded_opts ''s3BucketName'' = None
         \<or> padded_opts ''defaultACL'' = None \<or> padded_opts ''pathstyle'' = None
         \<or> (\<exists>p. padded_opts ''pathstyle'' = Some p \<and> p \<noteq> ''true'' \<and> p \<noteq> ''false'')
         \<or> (\<exists>a. padded_opts ''defaultACL'' = Some a \<and> a \<noteq> ''public-read'' \<and> a \<noteq> ''private'')))"
proof -
  have "\<exists>s. fst (New padded_opts test_world) = Inr s"
    by (simp add: New_def key_defs padded_opts_def test_world_def TrimSpace_padded_true)
  then have "\<not> (\<exists>e. fst (New padded_opts test_world) = Inl e \<and> Kind e = Invalid)"
    by auto
  moreover have "\<exists>p. padded_opts ''pathstyle'' = Some p \<and> p \<noteq> ''true'' \<and> p \<noteq> ''false''"
    by (simp add: padded_opts_def)
  ultimately show ?thesis by blast
qed

text \<open>
  C3, amended. \<^verbatim>\<open>New\<close> fails with an Invalid error if and only if one of the four required
  options (\<^verbatim>\<open>s3Region\<close>, \<^verbatim>\<open>s3BucketName\<close>, \<^verbatim>\<open>defaultACL\<close>, \<^verbatim>\<open>pathstyle\<close>) is absent, or the pathstyle
  flag with its leading and trailing white space trimmed is neither \<^verbatim>\<open>true\<close> nor \<^verbatim>\<open>false\<close>, or the
  ACL is neither \<^verbatim>\<open>public-read\<close> nor \<^verbatim>\<open>private\<close>. Every such failure leaves the world as it was: no
  session has been created and no client call issued.
\<close>

theorem New_Invalid_iff:
  "((\<exists>e. fst (New opts w) = Inl e \<and> Kind e = Invalid) \<longleftrightarrow>
      (opts ''s3Region'' = None \<or> opts ''s3BucketName'' = None
       \<or> opts ''defaultACL'' = None \<or> opts ''pathstyle'' = None
       \<or> (\<exists>p. opts ''pathstyle'' = Some p \<and> TrimSpace p \<noteq> ''true'' \<and> TrimSpace p \<noteq> ''false'')
       \<or> (\<exists>a. opts ''defaultACL'' = Some a \<and> a \<noteq> ''public-read'' \<and> a \<noteq> ''private'')))
   \<and> ((\<exists>e. fst (New opts w) = Inl e \<and> Kind e = Invalid) \<longrightarrow> snd (New opts w) = w)"
  by (auto simp: New_def key_defs E_def Let_def split: option.splits)

theorem New_Invalid_iff_witness:
  "(\<exists>e. fst (New (test_opts(''defaultACL'' \<mapsto> ''public'')) test_world) = Inl e \<and> Kind e = Invalid)
   \<and> snd (New (test_opts(''defaultACL'' \<mapsto> ''public'')) test_world) = test_world
   \<and> (\<exists>e. fst (New (test_opts(''pathstyle'' \<mapsto> ''yes'')) test_world) = Inl e \<and> Kind e = Invalid)
   \<and> \<not> (\<exists>e. fst (New padded_opts test_world) = Inl e \<and> Kind e = Invalid)"
proof -
  have y: "TrimSpace ''yes'' = ''yes''"
    by code_simp
  from New_Invalid_iff [of "test_opts(''defaultACL'' \<mapsto> ''public'')" test_world]
  have a: "(\<exists>e. fst (New (test_opts(''defaultACL'' \<mapsto> ''public'')) test_world) = Inl e \<and> Kind e = Invalid)
     \<and> snd (New (test_opts(''defaultACL'' \<mapsto> ''public'')) test_world) = test_world"
    by (simp add: test_opts_def)
  from New_Invalid_iff [of "test_opts(''pathstyle'' \<mapsto> ''yes'')" test_world]
  have b: "\<exists>e. fst (New (test_opts(''pathstyle'' \<mapsto> ''yes'')) test_world) = Inl e \<and> Kind e = Invalid"
    by (simp add: test_opts_def y)
  from New_Invalid_iff [of padded_opts test_world]
  have c: "\<not> (\<exists>e. fst (New padded_opts test_world) = Inl e \<and> Kind e = Invalid)"
    by (simp add: padded_opts_def TrimSpace_padded_true)
  from a b c show ?thesis by (intro conjI) simp_all
qed

text \<open>
  C9. The store configuration the provisioning command writes is exactly the four entries
  \<^verbatim>\<open>backend=S3\<close>, \<^verbatim>\<open>defaultACL=public-read\<close>, \<^verbatim>\<open>s3BucketName=\<close>bucket and \<^verbatim>\<open>s3Region=\<close>region; none of
  them has the key \<^verbatim>\<open>pathstyle\<close>. \<^verbatim>\<open>New\<close> fails with an Invalid error, before creating a session,
  for every option map without the \<^verbatim>\<open>pathstyle\<close> key, and so for the options read from those
  entries, where the failure is the one for the missing \<^verbatim>\<open>pathstyle\<close> option.
\<close>

theorem provisioned_options_rejected:
  "StoreConfig bucket region =
      [''backend=S3'', ''defaultACL=public-read'', ''s3BucketName='' @ bucket, ''s3Region='' @ region]
   \<and> ''pathstyle'' \<notin> entry_key ` set (StoreConfig bucket region)
   \<and> (\<forall>opts w'. opts ''pathstyle'' = None \<longrightarrow> (\<exists>e. New opts w' = (Inl e, w') \<and> Kind e = Invalid))
   \<and> New (options_of (StoreConfig bucket region)) w =
       (Inl (E ''cloud/storage/amazons3.New'' Invalid (Errorf ''%q option is required'' [''pathstyle''])), w)"
proof (intro conjI)
  show "StoreConfig bucket region =
      [''backend=S3'', ''defaultACL=public-read'', ''s3BucketName='' @ bucket, ''s3Region='' @ region]"
    by (simp add: StoreConfig_def)
  show "''pathstyle'' \<notin> entry_key ` set (StoreConfig bucket region)"
    by (simp add: StoreConfig_def entry_key_def)
  show "\<forall>opts w'. opts ''pathstyle'' = None \<longrightarrow> (\<exists>e. New opts w' = (Inl e, w') \<and> Kind e = Invalid)"
    by (auto simp: New_def key_defs E_def Let_def split: option.splits)
  show "New (options_of (StoreConfig bucket region)) w =
       (Inl (E ''cloud/storage/amazons3.New'' Invalid (Errorf ''%q option is required'' [''pathstyle''])), w)"
    by (simp add: New_def key_defs StoreConfig_def options_of_def entry_key_def entry_value_def)
qed

theorem provisioned_options_rejected_witness:
  "StoreConfig ''test'' ''us-east-1'' =
      [''backend=S3'', ''defaultACL=public-read'', ''s3BucketName=test'', ''s3Region=us-east-1'']
   \<and> options_of (StoreConfig ''test'' ''us-east-1'') ''s3BucketName'' = Some ''test''
   \<and> options_of (StoreConfig ''test'' ''us-east-1'') ''pathstyle'' = None
   \<and> (\<exists>e. New (options_of (StoreConfig ''test'' ''us-east-1'')) test_world = (Inl e, test_world)
          \<and> Kind e = Invalid)"
proof -
  have none: "options_of (StoreConfig ''test'' ''us-east-1'') ''pathstyle'' = None"
    by (simp add: StoreConfig_def options_of_def entry_key_def entry_value_def)
  have some: "options_of (StoreConfig ''test'' ''us-east-1'') ''s3BucketName'' = Some ''test''"
    by (simp add: StoreConfig_def options_of_def entry_key_def entry_value_def)
  note t = provisioned_options_rejected [of "''test''" "''us-east-1''" test_world]
  from t have entries: "StoreConfig ''test'' ''us-east-1'' =
      [''backend=S3'', ''defaultACL=public-read'', ''s3BucketName=test'', ''s3Region=us-east-1'']"
    by simp
  from t none
  have "\<exists>e. New (options_of (StoreConfig ''test'' ''us-east-1'')) test_world = (Inl e, test_world)
          \<and> Kind e = Invalid"
    by blast
  with entries some none show ?thesis by (intro conjI)
qed

text \<open>
  C8. The cleanup command does not report every failure that is not a not-found failure.
  When a teardown step fails with an error that is not an \<^verbatim>\<open>awserr.RequestFailure\<close> (here the
  bucket deletion cannot be sent), the unchecked type assertion panics: nothing is logged
  about the failure and the remaining four steps are not run.
\<close>

theorem clean_panics_on_plain_error:
  "clean ''upspinstorage'' ''test'' ''us-east-1''
     (test_world\<lparr>faults := [Some (PlainError ''RequestError: send request failed'')]\<rparr>) = Panics"
  by (simp add: clean_def teardown_def client_call_def next_fault_def)

end
